theory Spec2Isabelle
  imports Complex_Main "HOL-Library.Word" "HOL-Library.AList"
begin

section \<open>Data model\<close>

text \<open>
  The engine of the third iteration (\<^verbatim>\<open>Engine\<close>, \<^verbatim>\<open>Transaction\<close>) and the two HTTP
  handlers of \<^verbatim>\<open>practice2/main.go\<close> that build transactions from a request.

  Go values that live behind a pointer are kept in an explicit heap: a
  \<^verbatim>\<open>*geojson.Feature\<close> is an address, and the pointer comparison made by the spatial
  tree's \<^verbatim>\<open>Delete\<close> is a comparison of addresses. Coordinates (\<^verbatim>\<open>float64\<close>) are
  reals. A file is the sequence of values its decoder yields: a transaction document,
  or a chunk that does not decode. What the encoder writes for a feature is what the
  codec configured in \<^verbatim>\<open>main.go\<close> makes of it (\<open>encodeFeature\<close> below). A world names
  the paths the file system refuses to open or create and the paths on which a write
  fails; truncating an open file is taken to succeed. The mutex is left out: the model
  follows one goroutine, and the only call that would block on a lock its caller holds
  is \<^verbatim>\<open>saveTransaction\<close> on a checkpoint transaction.
\<close>

type_synonym ptr = nat

type_synonym point = "real \<times> real"

text \<open>The dynamic type of \<^verbatim>\<open>Feature.ID\<close>, an \<^verbatim>\<open>interface{}\<close>.\<close>

datatype any = AnyNil | AnyString string | AnyFloat real

record Feature =
  ID :: any
  Type :: string
  BBox :: "real list"
  Geometry :: "point list"
  Properties :: "(string \<times> string) list"

text \<open>
  \<^verbatim>\<open>Transaction\<close>, with the feature as a pointer (in memory, \<open>'f = ptr\<close>) or as the
  value itself (serialised, \<open>'f = Feature\<close>).
\<close>

record 'f Transaction =
  Action :: string
  Name :: string
  LSN :: "64 word"
  Feature :: "'f option"

datatype chunk = Record "Feature Transaction" | Malformed

text \<open>The spatial tree holds rectangles with the pointer stored under each.\<close>

type_synonym RTree = "(point \<times> point \<times> ptr) list"

record Engine =
  primary :: "(string \<times> ptr) list"
  spatial :: RTree
  lsn :: "64 word"
  logFile :: string
  checkpointPath :: string

record World =
  heap :: "ptr \<Rightarrow> Feature"
  brk :: ptr
  files :: "string \<rightharpoonup> chunk list"
  noOpen :: "string set"
  noWrite :: "string set"

record Storage =
  name :: string
  dbFile :: string

datatype panic = NilPointerDereference | InterfaceConversion | UnknownAction

text \<open>
  \<open>NoSuchEntry id\<close> is \<^verbatim>\<open>errors.New("can't delete by id" + id + ": no such enrty")\<close>;
  the other two are the errors of \<^verbatim>\<open>os.Open\<close> on a missing file and of a write to
  a file opened for reading.
\<close>

datatype error = NoSuchEntry string | OpenFailed string | WriteFailed string

text \<open>The bytes \<^verbatim>\<open>FeatureCollection.MarshalJSON\<close> produces for the given features.\<close>

datatype json = FeatureCollectionJSON "Feature list"

type_synonym reply = "json option \<times> error option"

section \<open>Library operations used by the engine\<close>

text \<open>\<^verbatim>\<open>BBox.Valid\<close> and \<^verbatim>\<open>BBox.Bound\<close> of the geojson package.\<close>

definition Valid :: "real list \<Rightarrow> bool" where
  "Valid bb = (4 \<le> length bb \<and> length bb mod 2 = 0)"

definition Bound :: "real list \<Rightarrow> point \<times> point" where
  "Bound bb =
     (if Valid bb
      then (let mid = length bb div 2 in ((bb ! 0, bb ! 1), (bb ! mid, bb ! (mid + 1))))
      else ((0, 0), (0, 0)))"

text \<open>
  The tree: \<^verbatim>\<open>Insert\<close> adds an item (it never replaces one), \<^verbatim>\<open>Delete\<close> removes
  one item that lies in the given rectangle and holds the given pointer, \<^verbatim>\<open>Scan\<close>
  enumerates the items. The order of the enumeration is the tree's own; the list keeps
  insertion order.
\<close>

definition contains :: "point \<times> point \<Rightarrow> point \<times> point \<Rightarrow> bool" where
  "contains r b =
     (fst (fst r) \<le> fst (fst b) \<and> fst (snd b) \<le> fst (snd r) \<and>
      snd (fst r) \<le> snd (fst b) \<and> snd (snd b) \<le> snd (snd r))"

definition rtree_Insert :: "point \<Rightarrow> point \<Rightarrow> ptr \<Rightarrow> RTree \<Rightarrow> RTree" where
  "rtree_Insert mn mx d tr = tr @ [(mn, mx, d)]"

fun rtree_Delete :: "point \<Rightarrow> point \<Rightarrow> ptr \<Rightarrow> RTree \<Rightarrow> RTree" where
  "rtree_Delete mn mx d [] = []"
| "rtree_Delete mn mx d ((rmn, rmx, rd) # tr) =
     (if contains (mn, mx) (rmn, rmx) \<and> rd = d then tr
      else (rmn, rmx, rd) # rtree_Delete mn mx d tr)"

definition rtree_Scan :: "RTree \<Rightarrow> ptr list" where
  "rtree_Scan tr = map (\<lambda>(mn, mx, d). d) tr"

text \<open>Allocation of a feature: \<^verbatim>\<open>&geojson.Feature{}\<close> and the decoder's allocation.\<close>

definition new :: "Feature \<Rightarrow> World \<Rightarrow> ptr \<times> World" where
  "new f w = (brk w, w\<lparr>heap := (heap w)(brk w := f), brk := Suc (brk w)\<rparr>)"

text \<open>\<^verbatim>\<open>strconv.FormatUint(n, 10)\<close>.\<close>

fun FormatUint :: "nat \<Rightarrow> string" where
  "FormatUint n =
     (if n < 10 then [char_of (48 + n)]
      else FormatUint (n div 10) @ [char_of (48 + n mod 10)])"

declare FormatUint.simps [simp del]

text \<open>
  The codec of \<^verbatim>\<open>main.go\<close> (\<^verbatim>\<open>MarshalFloatWith6Digits: true\<close>), which the geojson
  package uses for every feature it writes. A float of magnitude up to \<^verbatim>\<open>0x4ffffff\<close>
  is written as \<^verbatim>\<open>uint64(val*1000000 + 0.5)\<close> over a million, with its sign; a larger
  one is written in full. \<open>lossy x\<close> is the number read back.
\<close>

definition lossy :: "real \<Rightarrow> real" where
  "lossy x =
     (if 83886079 < \<bar>x\<bar> then x
      else sgn x * (of_int \<lfloor>\<bar>x\<bar> * 1000000 + 1 / 2\<rfloor> / 1000000))"

text \<open>
  What is read back from the bytes written for a feature: the type is always written as
  \<^verbatim>\<open>"Feature"\<close>, and every float goes through \<open>lossy\<close>.
\<close>

definition encodeFeature :: "Feature \<Rightarrow> Feature" where
  "encodeFeature f =
     \<lparr>ID = (case ID f of
              AnyNil \<Rightarrow> AnyNil
            | AnyString s \<Rightarrow> AnyString s
            | AnyFloat x \<Rightarrow> AnyFloat (lossy x)),
      Type = ''Feature'',
      BBox = map lossy (BBox f),
      Geometry = map (\<lambda>(x, y). (lossy x, lossy y)) (Geometry f),
      Properties = Properties f\<rparr>"

text \<open>
  \<^verbatim>\<open>json.Marshal(txn)\<close> reads the feature through its pointer and writes it with the
  codec; with real coordinates there is no value it cannot write. \<^verbatim>\<open>Decode(&txn)\<close>
  fills a fresh transaction and allocates its feature.
\<close>

definition Marshal :: "World \<Rightarrow> ptr Transaction \<Rightarrow> chunk" where
  "Marshal w txn =
     Record \<lparr>Action = Action txn, Name = Name txn, LSN = LSN txn,
             Feature = map_option (\<lambda>p. encodeFeature (heap w p)) (Feature txn)\<rparr>"

definition Decode :: "Feature Transaction \<Rightarrow> World \<Rightarrow> ptr Transaction \<times> World" where
  "Decode d w =
     (case Feature d of
        None \<Rightarrow> (\<lparr>Action = Action d, Name = Name d, LSN = LSN d, Feature = None\<rparr>, w)
      | Some f \<Rightarrow>
          (let (p, w1) = new f w
           in (\<lparr>Action = Action d, Name = Name d, LSN = LSN d, Feature = Some p\<rparr>, w1)))"

definition contents :: "World \<Rightarrow> string \<Rightarrow> chunk list" where
  "contents w path = (case files w path of None \<Rightarrow> [] | Some cs \<Rightarrow> cs)"

section \<open>The engine\<close>

text \<open>
  The type assertion \<^verbatim>\<open>ID.(string)\<close>: it panics unless the interface holds a
  string.
\<close>

definition assertString :: "any \<Rightarrow> panic + string" where
  "assertString v =
     (case v of
        AnyString s \<Rightarrow> Inr s
      | AnyNil \<Rightarrow> Inl InterfaceConversion
      | AnyFloat x \<Rightarrow> Inl InterfaceConversion)"

text \<open>
  \<^verbatim>\<open>applyTransaction\<close>. A panic is \<open>Inl\<close>; a return is the state with the pair
  \<^verbatim>\<open>([]byte, error)\<close>. The expression \<^verbatim>\<open>txn.Feature.ID.(string)\<close> panics on a nil
  feature and on an identifier that is not a string, before anything is stored. The
  checkpoint branch opens its file for reading, so its write always fails.
\<close>

definition applyTransaction ::
  "World \<times> Engine \<Rightarrow> ptr Transaction \<Rightarrow> panic + ((World \<times> Engine) \<times> reply)" where
  "applyTransaction s txn =
     (let w = fst s; e = snd s in
      if Action txn = ''insert'' \<or> Action txn = ''replace'' then
        (case Feature txn of
           None \<Rightarrow> Inl NilPointerDereference
         | Some p \<Rightarrow>
             (case assertString (ID (heap w p)) of
                Inl pn \<Rightarrow> Inl pn
              | Inr k \<Rightarrow>
                  (let b = Bound (BBox (heap w p)) in
                   Inr ((w, e\<lparr>primary := AList.update k p (primary e),
                              spatial := rtree_Insert (fst b) (snd b) p (spatial e)\<rparr>),
                        (None, None)))))
      else if Action txn = ''delete'' then
        (case Feature txn of
           None \<Rightarrow> Inl NilPointerDereference
         | Some p \<Rightarrow>
             (case assertString (ID (heap w p)) of
                Inl pn \<Rightarrow> Inl pn
              | Inr k \<Rightarrow>
                  (case map_of (primary e) k of
                     Some feature \<Rightarrow>
                       (let b = Bound (BBox (heap w feature)) in
                        Inr ((w, e\<lparr>spatial :=
                                     rtree_Delete (fst b) (snd b) feature (spatial e),
                                   primary := AList.delete k (primary e)\<rparr>),
                             (None, None)))
                   | None \<Rightarrow> Inr ((w, e), (None, Some (NoSuchEntry k))))))
      else if Action txn = ''select'' then
        Inr ((w, e),
             (Some (FeatureCollectionJSON (map (heap w) (rtree_Scan (spatial e)))), None))
      else if Action txn = ''checkpoint'' then
        (let path = Name txn @ FormatUint (unat (lsn e)) @ checkpointPath e in
         case files w path of
           None \<Rightarrow> Inr ((w, e), (None, Some (OpenFailed path)))
         | Some cs \<Rightarrow> Inr ((w, e), (None, Some (WriteFailed path))))
      else Inl UnknownAction)"

text \<open>
  \<^verbatim>\<open>saveTransaction\<close>: the counter is advanced and the record written before the
  transaction is applied, and the result of applying it is dropped. When the write
  fails the error is returned and the transaction is not applied. The transaction is
  returned with the sequence number it was given.
\<close>

definition saveTransaction ::
  "World \<times> Engine \<Rightarrow> ptr Transaction \<Rightarrow>
     panic + ((World \<times> Engine) \<times> ptr Transaction \<times> error option)" where
  "saveTransaction s txn =
     (let w = fst s; e = snd s;
          e1 = e\<lparr>lsn := lsn e + 1\<rparr>;
          txn1 = txn\<lparr>LSN := lsn e1\<rparr>
      in if logFile e \<in> noWrite w then Inr ((w, e1), txn1, Some (WriteFailed (logFile e)))
         else
           (let w1 = w\<lparr>files :=
                        (files w)(logFile e \<mapsto> contents w (logFile e) @ [Marshal w txn1])\<rparr>
            in case applyTransaction (w1, e1) txn1 of
                 Inl pn \<Rightarrow> Inl pn
               | Inr (s', r) \<Rightarrow> Inr (s', txn1, None)))"

text \<open>
  \<^verbatim>\<open>check\<close>. \<^verbatim>\<open>os.Create\<close> may fail: the error is returned and nothing has changed.
  Otherwise the checkpoint file is created empty and one insert record per entry of the
  primary index is encoded into it (in the model, in the order of the association
  list; Go's map order is unspecified); when the write of the first record fails, the
  error is returned with the file left empty. In both cases the log is not truncated.
  Only after the last record is the log truncated.
\<close>

definition check :: "World \<times> Engine \<Rightarrow> (World \<times> Engine) \<times> error option" where
  "check s =
     (let w = fst s; e = snd s in
      if checkpointPath e \<in> noOpen w then ((w, e), Some (OpenFailed (checkpointPath e)))
      else
        (let w1 = w\<lparr>files := (files w)(checkpointPath e \<mapsto> [])\<rparr> in
         if primary e \<noteq> [] \<and> checkpointPath e \<in> noWrite w
         then ((w1, e), Some (WriteFailed (checkpointPath e)))
         else
           (let recs = map (\<lambda>(k, feature).
                         Marshal w \<lparr>Action = ''insert'', Name = [], LSN = 0,
                                    Feature = Some feature\<rparr>)
                         (primary e);
                w2 = w1\<lparr>files := (files w1)(checkpointPath e \<mapsto> recs)\<rparr>;
                w3 = w2\<lparr>files := (files w2)(logFile e \<mapsto> [])\<rparr>
            in ((w3, e), None))))"

text \<open>
  The loop shared by \<^verbatim>\<open>loadCheckpoint\<close> and \<^verbatim>\<open>replayLog\<close>: decode, stop at the
  first decoding error (the end of the file is one), apply, and drop the result.
\<close>

fun decodeLoop :: "chunk list \<Rightarrow> World \<times> Engine \<Rightarrow> panic + (World \<times> Engine)" where
  "decodeLoop [] s = Inr s"
| "decodeLoop (Malformed # cs) s = Inr s"
| "decodeLoop (Record d # cs) s =
     (let (txn, w1) = Decode d (fst s)
      in case applyTransaction (w1, snd s) txn of
           Inl pn \<Rightarrow> Inl pn
         | Inr (s', r) \<Rightarrow> decodeLoop cs s')"

text \<open>
  \<^verbatim>\<open>loadCheckpoint\<close>: a missing checkpoint is no error; one that exists and cannot be
  opened is.
\<close>

definition loadCheckpoint ::
  "World \<times> Engine \<Rightarrow> panic + ((World \<times> Engine) \<times> error option)" where
  "loadCheckpoint s =
     (case files (fst s) (checkpointPath (snd s)) of
        None \<Rightarrow> Inr (s, None)
      | Some cs \<Rightarrow>
          if checkpointPath (snd s) \<in> noOpen (fst s)
          then Inr (s, Some (OpenFailed (checkpointPath (snd s))))
          else
            (case decodeLoop cs s of
               Inl pn \<Rightarrow> Inl pn
             | Inr s' \<Rightarrow> Inr (s', None)))"

definition replayLog :: "World \<times> Engine \<Rightarrow> panic + (World \<times> Engine)" where
  "replayLog s = decodeLoop (contents (fst s) (logFile (snd s))) s"

text \<open>
  \<^verbatim>\<open>NewEngine\<close> returns the engine or an error (\<^verbatim>\<open>(*Engine, error)\<close>), in the world it
  leaves behind: the log is opened, and created when missing; then the checkpoint is
  loaded and the log replayed.
\<close>

definition NewEngine ::
  "string \<Rightarrow> string \<Rightarrow> World \<Rightarrow> panic + (World \<times> (error + Engine))" where
  "NewEngine logPath ckptPath w =
     (if logPath \<in> noOpen w then Inr (w, Inl (OpenFailed logPath))
      else
        (let w1 = w\<lparr>files := (files w)(logPath \<mapsto> contents w logPath)\<rparr>;
             engine = \<lparr>primary = [], spatial = [], lsn = 0,
                       logFile = logPath, checkpointPath = ckptPath\<rparr>
         in case loadCheckpoint (w1, engine) of
              Inl pn \<Rightarrow> Inl pn
            | Inr (s, Some err) \<Rightarrow> Inr (fst s, Inl err)
            | Inr (s, None) \<Rightarrow>
                (case replayLog s of
                   Inl pn \<Rightarrow> Inl pn
                 | Inr s' \<Rightarrow> Inr (fst s', Inr (snd s')))))"

text \<open>
  \<^verbatim>\<open>Run\<close>: each job received is applied with \<^verbatim>\<open>applyTransaction\<close>; what it returns
  is dropped and nothing is sent back.
\<close>

definition Run_job :: "World \<times> Engine \<Rightarrow> ptr Transaction \<Rightarrow> panic + (World \<times> Engine)" where
  "Run_job s tnx =
     (case applyTransaction s tnx of
        Inl pn \<Rightarrow> Inl pn
      | Inr (s', r) \<Rightarrow> Inr s')"

fun Run :: "World \<times> Engine \<Rightarrow> ptr Transaction list \<Rightarrow> panic + (World \<times> Engine)" where
  "Run s [] = Inr s"
| "Run s (tnx # jobs) =
     (case Run_job s tnx of
        Inl pn \<Rightarrow> Inl pn
      | Inr s' \<Rightarrow> Run s' jobs)"

section \<open>The HTTP handlers\<close>

text \<open>
  What a handler sends on the jobs channel. \<^verbatim>\<open>deleteHandler\<close> receives the decoded
  body (\<open>None\<close> when decoding fails: it answers 400 and submits nothing).
\<close>

definition deleteHandler ::
  "Storage \<Rightarrow> World \<times> Engine \<Rightarrow> string option \<Rightarrow> World \<times> ptr Transaction option" where
  "deleteHandler st s body =
     (case body of
        None \<Rightarrow> (fst s, None)
      | Some k \<Rightarrow>
          (let (feature, w1) =
                 new \<lparr>ID = AnyString k, Type = [], BBox = [], Geometry = [], Properties = []\<rparr>
                   (fst s)
           in (w1, Some \<lparr>Action = ''replace'', Name = name st, LSN = lsn (snd s),
                         Feature = Some feature\<rparr>)))"

definition checkpointHandler :: "Storage \<Rightarrow> World \<times> Engine \<Rightarrow> ptr Transaction" where
  "checkpointHandler st s =
     \<lparr>Action = ''replace'', Name = name st, LSN = lsn (snd s), Feature = None\<rparr>"

section \<open>Notions used by the properties\<close>

text \<open>
  A transaction record as the data model describes it for the log: a mutating action
  with a feature that carries a string identifier.
\<close>

definition hasStringID :: "Feature option \<Rightarrow> bool" where
  "hasStringID fo =
     (case fo of
        None \<Rightarrow> False
      | Some f \<Rightarrow>
          (case ID f of AnyString k \<Rightarrow> True | AnyNil \<Rightarrow> False | AnyFloat x \<Rightarrow> False))"

definition wellFormed :: "Feature Transaction \<Rightarrow> bool" where
  "wellFormed d =
     ((Action d = ''insert'' \<or> Action d = ''replace'' \<or> Action d = ''delete'') \<and>
      hasStringID (Feature d))"

text \<open>
  Applying a sequence of serialised transactions in order, each one decoded and handed
  to the processing step of \<open>Run\<close>: what a replay of exactly these records amounts to.
\<close>

fun applyRecords ::
  "Feature Transaction list \<Rightarrow> World \<times> Engine \<Rightarrow> panic + (World \<times> Engine)" where
  "applyRecords [] s = Inr s"
| "applyRecords (d # ds) s =
     (let (txn, w1) = Decode d (fst s)
      in case Run_job (w1, snd s) txn of
           Inl pn \<Rightarrow> Inl pn
         | Inr s' \<Rightarrow> applyRecords ds s')"

text \<open>The identifiers held by the primary index, and those a full scan enumerates.\<close>

definition primaryIDs :: "World \<times> Engine \<Rightarrow> any set" where
  "primaryIDs s = set (map (\<lambda>(k, feature). AnyString k) (primary (snd s)))"

definition scanIDs :: "World \<times> Engine \<Rightarrow> any list" where
  "scanIDs s = map (\<lambda>d. ID (heap (fst s) d)) (rtree_Scan (spatial (snd s)))"

text \<open>
  Every entry of the primary index points to a feature that carries the entry's key as
  its identifier and that the scan enumerates.
\<close>

definition indexed :: "World \<times> Engine \<Rightarrow> bool" where
  "indexed s =
     list_all (\<lambda>(k, feature). ID (heap (fst s) feature) = AnyString k \<and>
                 feature \<in> set (rtree_Scan (spatial (snd s))))
       (primary (snd s))"

subsection \<open>Concrete states\<close>

text \<open>
  The features of the API test: a point stored under an identifier and its
  replacement, and the stub a delete request carries.
\<close>

definition pointFeature :: "string \<Rightarrow> real \<Rightarrow> real \<Rightarrow> Feature" where
  "pointFeature k x y =
     \<lparr>ID = AnyString k, Type = ''Feature'', BBox = [], Geometry = [(x, y)], Properties = []\<rparr>"

definition stubFeature :: "string \<Rightarrow> Feature" where
  "stubFeature k = \<lparr>ID = AnyString k, Type = [], BBox = [], Geometry = [], Properties = []\<rparr>"

text \<open>
  A world in which three features have been allocated and the log file exists and is
  empty, and the engine \<^verbatim>\<open>NewEngine("engine.log", "engine.checkpoint")\<close> builds there.
\<close>

definition world3 :: World where
  "world3 =
     \<lparr>heap = (\<lambda>p. if p = 0 then pointFeature ''p2'' 3 4
                  else if p = 1 then pointFeature ''p2'' 5 6
                  else stubFeature ''p2''),
      brk = 3,
      files = [''engine.log'' \<mapsto> []],
      noOpen = {},
      noWrite = {}\<rparr>"

definition engine0 :: Engine where
  "engine0 = \<lparr>primary = [], spatial = [], lsn = 0,
              logFile = ''engine.log'', checkpointPath = ''engine.checkpoint''\<rparr>"

definition job :: "string \<Rightarrow> ptr option \<Rightarrow> ptr Transaction" where
  "job a f = \<lparr>Action = a, Name = ''storage'', LSN = 0, Feature = f\<rparr>"

definition record0 :: "string \<Rightarrow> Feature \<Rightarrow> Feature Transaction" where
  "record0 a f = \<lparr>Action = a, Name = ''storage'', LSN = 0, Feature = Some f\<rparr>"

text \<open>
  The same world after a crash in the middle of a write: the log holds two records, a
  truncated one, and a record behind it.
\<close>

definition crashedWorld :: World where
  "crashedWorld =
     world3\<lparr>files :=
       [''engine.log'' \<mapsto>
          [Record (record0 ''insert'' (pointFeature ''p1'' 1 2)),
           Record (record0 ''delete'' (stubFeature ''p1'')),
           Malformed,
           Record (record0 ''insert'' (pointFeature ''p1'' 1 2))]]\<rparr>"

definition storage0 :: Storage where
  "storage0 = \<lparr>name = ''storage'', dbFile = ''geo.db.json''\<rparr>"






section \<open>Properties\<close>

lemmas apply_defs = applyTransaction_def assertString_def Let_def

lemmas fixture_defs =
  world3_def engine0_def job_def record0_def pointFeature_def stubFeature_def


subsection \<open>The indices after insert, replace and delete\<close>

text \<open>
  C1. After every transaction the identifiers of the primary index are those a full scan
  of the spatial index enumerates, and a replace of a stored identifier leaves one
  spatial entry for it. The code does not keep this: the insert/replace branch adds to
  the tree without removing the entry of the feature it replaces. Inserting a feature
  under \<open>p2\<close> and replacing it leaves two entries for \<open>p2\<close> in the tree; deleting \<open>p2\<close>
  afterwards empties the primary index and removes only the newer entry, so the scan
  still enumerates \<open>p2\<close>.
\<close>

theorem replace_leaves_stale_spatial_entry:
  "Run (world3, engine0) [job ''insert'' (Some 0), job ''replace'' (Some 1)] =
     Inr (world3, engine0\<lparr>primary := [(''p2'', 1)],
                          spatial := [((0, 0), (0, 0), 0), ((0, 0), (0, 0), 1)]\<rparr>) \<and>
   scanIDs (world3, engine0\<lparr>primary := [(''p2'', 1)],
                            spatial := [((0, 0), (0, 0), 0), ((0, 0), (0, 0), 1)]\<rparr>) =
     [AnyString ''p2'', AnyString ''p2''] \<and>
   Run (world3, engine0)
       [job ''insert'' (Some 0), job ''replace'' (Some 1), job ''delete'' (Some 2)] =
     Inr (world3, engine0\<lparr>primary := [], spatial := [((0, 0), (0, 0), 0)]\<rparr>) \<and>
   primaryIDs (world3, engine0\<lparr>primary := [], spatial := [((0, 0), (0, 0), 0)]\<rparr>) = {} \<and>
   set (scanIDs (world3, engine0\<lparr>primary := [], spatial := [((0, 0), (0, 0), 0)]\<rparr>)) =
     {AnyString ''p2''}"
  by (simp add: Run_job_def apply_defs fixture_defs Bound_def Valid_def rtree_Insert_def
      contains_def scanIDs_def primaryIDs_def rtree_Scan_def)

subsection \<open>Checkpoint and restart\<close>




text \<open>
  When \<open>check\<close> returns an error, the engine is as it was and, the checkpoint being
  another file than the log, the log still holds what it held.
\<close>

theorem check_failure_keeps_log:
  assumes "check s = (s', Some err)"
    and "logFile (snd s) \<noteq> checkpointPath (snd s)"
  shows "snd s' = snd s \<and>
         contents (fst s') (logFile (snd s)) = contents (fst s) (logFile (snd s))"
  using assms
  by (auto simp: check_def Let_def contents_def split: if_splits)

theorem check_failure_keeps_log_witness:
  "check (crashedWorld\<lparr>noOpen := {''engine.checkpoint''}\<rparr>, engine0) =
     ((crashedWorld\<lparr>noOpen := {''engine.checkpoint''}\<rparr>, engine0),
      Some (OpenFailed ''engine.checkpoint'')) \<and>
   check (crashedWorld\<lparr>noWrite := {''engine.checkpoint''}\<rparr>,
          engine0\<lparr>primary := [(''p2'', 0)]\<rparr>) =
     ((crashedWorld\<lparr>noWrite := {''engine.checkpoint''},
                    files := (files crashedWorld)(''engine.checkpoint'' \<mapsto> [])\<rparr>,
       engine0\<lparr>primary := [(''p2'', 0)]\<rparr>),
      Some (WriteFailed ''engine.checkpoint'')) \<and>
   logFile engine0 \<noteq> checkpointPath engine0 \<and>
   length (contents (crashedWorld\<lparr>noOpen := {''engine.checkpoint''}\<rparr>) (logFile engine0)) = 4"
proof -
  have h1: "check (crashedWorld\<lparr>noOpen := {''engine.checkpoint''}\<rparr>, engine0) =
     ((crashedWorld\<lparr>noOpen := {''engine.checkpoint''}\<rparr>, engine0),
      Some (OpenFailed ''engine.checkpoint''))"
    by (simp add: check_def engine0_def)
  have h2: "check (crashedWorld\<lparr>noWrite := {''engine.checkpoint''}\<rparr>,
          engine0\<lparr>primary := [(''p2'', 0)]\<rparr>) =
     ((crashedWorld\<lparr>noWrite := {''engine.checkpoint''},
                    files := (files crashedWorld)(''engine.checkpoint'' \<mapsto> [])\<rparr>,
       engine0\<lparr>primary := [(''p2'', 0)]\<rparr>),
      Some (WriteFailed ''engine.checkpoint''))"
    by (simp add: check_def engine0_def crashedWorld_def world3_def)
  have h3: "logFile (snd (crashedWorld\<lparr>noOpen := {''engine.checkpoint''}\<rparr>, engine0)) \<noteq>
            checkpointPath (snd (crashedWorld\<lparr>noOpen := {''engine.checkpoint''}\<rparr>, engine0))"
    by (simp add: engine0_def)
  have len: "length (contents crashedWorld (logFile engine0)) = 4"
    by (simp add: contents_def crashedWorld_def engine0_def)
  from check_failure_keeps_log [OF h1 h3] h1 h2 h3 len
  show ?thesis by (simp add: contents_def)
qed

subsection \<open>Delete of an absent identifier\<close>

text \<open>
  C3. A delete of an identifier that is not in the primary index fails with the
  not-found error, changes neither index and appends nothing to the log. The code does
  not keep this. \<open>applyTransaction\<close> returns the error and changes nothing, but both
  of its callers drop what it returns: \<open>saveTransaction\<close>, the only code that writes
  the log, has advanced the counter and appended the record before it applies the
  delete, and reports no error; the run loop writes nothing and reports nothing.
\<close>

theorem saveTransaction_logs_absent_delete:
  "map_of (primary engine0) ''p2'' = None \<and>
   contents world3 (logFile engine0) = [] \<and>
   applyTransaction (world3, engine0) (job ''delete'' (Some 2)) =
     Inr ((world3, engine0), (None, Some (NoSuchEntry ''p2''))) \<and>
   saveTransaction (world3, engine0) (job ''delete'' (Some 2)) =
     Inr ((world3\<lparr>files := [''engine.log'' \<mapsto>
                      [Record ((record0 ''delete'' (encodeFeature (stubFeature ''p2'')))
                                 \<lparr>LSN := 1\<rparr>)]]\<rparr>,
           engine0\<lparr>lsn := 1\<rparr>),
          (job ''delete'' (Some 2))\<lparr>LSN := 1\<rparr>, None) \<and>
   Run_job (world3, engine0) (job ''delete'' (Some 2)) = Inr (world3, engine0)"
  by (simp add: saveTransaction_def Run_job_def apply_defs fixture_defs contents_def
      Marshal_def)

text \<open>
  What \<open>applyTransaction\<close> alone does with such a delete, in every state: it returns
  the not-found error with the state it was given, so a step of the run loop leaves
  the indices and the files as they were.
\<close>

theorem delete_absent_fails_unchanged:
  assumes "Action txn = ''delete''"
    and "Feature txn = Some p"
    and "ID (heap (fst s) p) = AnyString k"
    and "map_of (primary (snd s)) k = None"
  shows "applyTransaction s txn = Inr (s, (None, Some (NoSuchEntry k))) \<and>
         Run_job s txn = Inr s"
  using assms by (simp add: Run_job_def apply_defs)

theorem delete_absent_fails_unchanged_witness:
  "Action (job ''delete'' (Some 2)) = ''delete'' \<and>
   Feature (job ''delete'' (Some 2)) = Some 2 \<and>
   ID (heap (fst (world3, engine0)) 2) = AnyString ''p2'' \<and>
   map_of (primary (snd (world3, engine0))) ''p2'' = None \<and>
   applyTransaction (world3, engine0) (job ''delete'' (Some 2)) =
     Inr ((world3, engine0), (None, Some (NoSuchEntry ''p2''))) \<and>
   Run_job (world3, engine0) (job ''delete'' (Some 2)) = Inr (world3, engine0)"
proof -
  have h1: "Action (job ''delete'' (Some 2)) = ''delete''"
    by (simp add: job_def)
  have h2: "Feature (job ''delete'' (Some 2)) = Some 2"
    by (simp add: job_def)
  have h3: "ID (heap (fst (world3, engine0)) 2) = AnyString ''p2''"
    by (simp add: world3_def stubFeature_def)
  have h4: "map_of (primary (snd (world3, engine0))) ''p2'' = None"
    by (simp add: engine0_def)
  from delete_absent_fails_unchanged [OF h1 h2 h3 h4] h1 h2 h3 h4
  show ?thesis by blast
qed

subsection \<open>Insert and replace\<close>

text \<open>
  What the insert/replace branch does for a feature with a string identifier, whether
  or not the identifier was stored before: the primary index maps the identifier to
  the feature, the tree gains one entry, for this feature, nothing is returned, and
  neither the files nor the sequence number change.
\<close>

theorem insert_replace_upserts:
  assumes "Action txn = ''insert'' \<or> Action txn = ''replace''"
    and "Feature txn = Some p"
    and "ID (heap (fst s) p) = AnyString k"
  shows "\<exists>e'. applyTransaction s txn = Inr ((fst s, e'), (None, None)) \<and>
           map_of (primary e') k = Some p \<and>
           set (rtree_Scan (spatial e')) = insert p (set (rtree_Scan (spatial (snd s)))) \<and>
           length (rtree_Scan (spatial e')) = Suc (length (rtree_Scan (spatial (snd s)))) \<and>
           lsn e' = lsn (snd s)"
  using assms
  by (auto simp: apply_defs rtree_Insert_def rtree_Scan_def update_conv')

theorem insert_replace_upserts_witness:
  "(Action (job ''replace'' (Some 1)) = ''insert'' \<or>
    Action (job ''replace'' (Some 1)) = ''replace'') \<and>
   Feature (job ''replace'' (Some 1)) = Some 1 \<and>
   ID (heap (fst (world3, engine0)) 1) = AnyString ''p2'' \<and>
   (\<exists>e'. applyTransaction (world3, engine0) (job ''replace'' (Some 1)) =
            Inr ((fst (world3, engine0), e'), (None, None)) \<and>
          map_of (primary e') ''p2'' = Some 1 \<and>
          set (rtree_Scan (spatial e')) =
            insert 1 (set (rtree_Scan (spatial (snd (world3, engine0))))) \<and>
          length (rtree_Scan (spatial e')) =
            Suc (length (rtree_Scan (spatial (snd (world3, engine0))))) \<and>
          lsn e' = lsn (snd (world3, engine0)))"
proof -
  have h1: "Action (job ''replace'' (Some 1)) = ''insert'' \<or>
            Action (job ''replace'' (Some 1)) = ''replace''"
    by (simp add: job_def)
  have h2: "Feature (job ''replace'' (Some 1)) = Some 1"
    by (simp add: job_def)
  have h3: "ID (heap (fst (world3, engine0)) 1) = AnyString ''p2''"
    by (simp add: world3_def pointFeature_def)
  from insert_replace_upserts [OF h1 h2 h3] h1 h2 h3
  show ?thesis by blast
qed

text \<open>
  C4. An insert or replace stores the feature in both indices, appends the transaction
  to the record log and returns no payload. The engine stores the feature and returns
  nothing, but it does not append: the run loop applies the job with
  \<open>applyTransaction\<close>, and the log file is as empty after the insert as before.
\<close>

theorem run_insert_not_logged:
  "Run_job (world3, engine0) (job ''insert'' (Some 0)) =
     Inr (world3, engine0\<lparr>primary := [(''p2'', 0)], spatial := [((0, 0), (0, 0), 0)]\<rparr>) \<and>
   contents world3 (logFile engine0) = []"
  by (simp add: Run_job_def apply_defs fixture_defs Bound_def Valid_def rtree_Insert_def
      contents_def)

subsection \<open>The sequence number\<close>

text \<open>
  What \<open>saveTransaction\<close> does for an insert, a replace or a delete whenever the log
  can be written and it returns: the counter is one more than before, the transaction
  carries the new value, one record is appended to the log, and no error is reported,
  also when the delete that was applied failed.
\<close>

theorem saveTransaction_advances_and_logs:
  assumes "Action txn = ''insert'' \<or> Action txn = ''replace'' \<or> Action txn = ''delete''"
    and "logFile (snd s) \<notin> noWrite (fst s)"
    and "saveTransaction s txn = Inr (s', txn', err)"
  shows "lsn (snd s') = lsn (snd s) + 1 \<and> LSN txn' = lsn (snd s) + 1 \<and> err = None \<and>
         logFile (snd s') = logFile (snd s) \<and>
         contents (fst s') (logFile (snd s)) =
           contents (fst s) (logFile (snd s)) @ [Marshal (fst s) txn']"
  using assms
  by (auto simp: saveTransaction_def apply_defs contents_def
      split: if_splits sum.splits option.splits)

theorem saveTransaction_advances_and_logs_witness:
  "saveTransaction (world3, engine0) (job ''insert'' (Some 0)) =
     Inr ((world3\<lparr>files := [''engine.log'' \<mapsto>
                      [Record ((record0 ''insert'' (pointFeature ''p2'' 3 4))\<lparr>LSN := 1\<rparr>)]]\<rparr>,
           engine0\<lparr>lsn := 1, primary := [(''p2'', 0)], spatial := [((0, 0), (0, 0), 0)]\<rparr>),
          (job ''insert'' (Some 0))\<lparr>LSN := 1\<rparr>, None) \<and>
   logFile (snd (world3, engine0)) \<notin> noWrite (fst (world3, engine0)) \<and>
   lsn (engine0\<lparr>lsn := 1, primary := [(''p2'', 0)], spatial := [((0, 0), (0, 0), 0)]\<rparr>) =
     lsn engine0 + 1 \<and>
   LSN ((job ''insert'' (Some 0))\<lparr>LSN := 1\<rparr>) = lsn engine0 + 1"
proof -
  have a: "Action (job ''insert'' (Some 0)) = ''insert'' \<or>
           Action (job ''insert'' (Some 0)) = ''replace'' \<or>
           Action (job ''insert'' (Some 0)) = ''delete''"
    by (simp add: job_def)
  have w: "logFile (snd (world3, engine0)) \<notin> noWrite (fst (world3, engine0))"
    by (simp add: world3_def)
  have h: "saveTransaction (world3, engine0) (job ''insert'' (Some 0)) =
     Inr ((world3\<lparr>files := [''engine.log'' \<mapsto>
                      [Record ((record0 ''insert'' (pointFeature ''p2'' 3 4))\<lparr>LSN := 1\<rparr>)]]\<rparr>,
           engine0\<lparr>lsn := 1, primary := [(''p2'', 0)], spatial := [((0, 0), (0, 0), 0)]\<rparr>),
          (job ''insert'' (Some 0))\<lparr>LSN := 1\<rparr>, None)"
    by (simp add: saveTransaction_def apply_defs fixture_defs contents_def Marshal_def
        encodeFeature_def lossy_def Bound_def Valid_def rtree_Insert_def)
  from saveTransaction_advances_and_logs [OF a w h] h w
  show ?thesis by simp
qed

text \<open>
  C5. The sequence number advances once for each mutating transaction the engine
  applies, so that mutating transactions get increasing numbers, and a select leaves it
  alone. The engine does not advance it at all: the run loop never reaches
  \<open>saveTransaction\<close>, the only place that increments the counter. After an insert, a
  replace and a delete, all applied, the counter is still 0.
\<close>

theorem run_never_advances_lsn:
  "\<exists>s. Run (world3, engine0)
          [job ''insert'' (Some 0), job ''replace'' (Some 1), job ''delete'' (Some 1)] =
          Inr s \<and>
        primary (snd s) = [] \<and> lsn (snd s) = 0 \<and> lsn engine0 = 0"
  by (simp add: Run_job_def apply_defs fixture_defs Bound_def Valid_def rtree_Insert_def
      contains_def)

subsection \<open>Replay of a log with a malformed record\<close>

lemma decodeLoop_applyRecords:
  "decodeLoop (map Record ds @ Malformed # rest) s = applyRecords ds s"
proof (induction ds arbitrary: s)
  case Nil
  show ?case by simp
next
  case (Cons d ds)
  show ?case
    by (simp add: Cons.IH Run_job_def split: prod.splits sum.splits)
qed

lemma wellFormed_step:
  assumes "wellFormed d"
  shows "\<exists>txn w1 s'. Decode d w = (txn, w1) \<and> Run_job (w1, e) txn = Inr s' \<and>
           brk (fst s') = Suc (brk w)"
proof -
  from assms obtain f k where f: "Feature d = Some f" and k: "ID f = AnyString k"
    by (auto simp: wellFormed_def hasStringID_def split: option.splits any.splits)
  from assms have a: "Action d = ''insert'' \<or> Action d = ''replace'' \<or> Action d = ''delete''"
    by (simp add: wellFormed_def)
  show ?thesis
    using a f k
    by (auto simp: Decode_def new_def Run_job_def apply_defs split: option.splits)
qed

lemma applyRecords_wellFormed:
  assumes "list_all wellFormed ds"
  shows "\<exists>s'. applyRecords ds s = Inr s' \<and> brk (fst s') = brk (fst s) + length ds"
  using assms
proof (induction ds arbitrary: s)
  case Nil
  show ?case by simp
next
  case (Cons d ds)
  then have d: "wellFormed d" and ds: "list_all wellFormed ds"
    by simp_all
  from wellFormed_step [OF d, of "fst s" "snd s"]
  obtain txn w1 s1 where 1: "Decode d (fst s) = (txn, w1)"
    and 2: "Run_job (w1, snd s) txn = Inr s1"
    and 3: "brk (fst s1) = Suc (brk (fst s))"
    by blast
  from Cons.IH [OF ds, of s1] obtain s' where
    4: "applyRecords ds s1 = Inr s'" and 5: "brk (fst s') = brk (fst s1) + length ds"
    by blast
  show ?case using 1 2 3 4 5 by simp
qed

text \<open>
  C6. When the log holds N well-formed transaction records, then a malformed one, then
  anything, the replay applies the N transactions in the order they were appended and
  returns: it ends in the state that applying exactly these N records gives, with N
  features decoded, and it does not panic.
\<close>

theorem replay_stops_at_malformed:
  assumes "contents (fst s) (logFile (snd s)) = map Record ds @ Malformed # rest"
    and "list_all wellFormed ds"
  shows "\<exists>s'. replayLog s = Inr s' \<and> applyRecords ds s = Inr s' \<and>
              brk (fst s') = brk (fst s) + length ds"
  using applyRecords_wellFormed [OF assms(2), of s] assms(1)
  by (simp add: replayLog_def decodeLoop_applyRecords)

theorem replay_stops_at_malformed_witness:
  "contents (fst (crashedWorld, engine0)) (logFile (snd (crashedWorld, engine0))) =
     map Record [record0 ''insert'' (pointFeature ''p1'' 1 2),
                 record0 ''delete'' (stubFeature ''p1'')]
       @ Malformed # [Record (record0 ''insert'' (pointFeature ''p1'' 1 2))] \<and>
   list_all wellFormed [record0 ''insert'' (pointFeature ''p1'' 1 2),
                        record0 ''delete'' (stubFeature ''p1'')] \<and>
   (\<exists>s'. replayLog (crashedWorld, engine0) = Inr s' \<and>
          applyRecords [record0 ''insert'' (pointFeature ''p1'' 1 2),
                        record0 ''delete'' (stubFeature ''p1'')] (crashedWorld, engine0) =
            Inr s' \<and>
          brk (fst s') = brk (fst (crashedWorld, engine0)) + 2)"
proof -
  have h1: "contents (fst (crashedWorld, engine0)) (logFile (snd (crashedWorld, engine0))) =
     map Record [record0 ''insert'' (pointFeature ''p1'' 1 2),
                 record0 ''delete'' (stubFeature ''p1'')]
       @ Malformed # [Record (record0 ''insert'' (pointFeature ''p1'' 1 2))]"
    by (simp add: crashedWorld_def engine0_def contents_def)
  have h2: "list_all wellFormed [record0 ''insert'' (pointFeature ''p1'' 1 2),
                                 record0 ''delete'' (stubFeature ''p1'')]"
    by (simp add: wellFormed_def hasStringID_def record0_def pointFeature_def stubFeature_def)
  from replay_stops_at_malformed [OF h1 h2] h1 h2
  show ?thesis by simp
qed

text \<open>
  The limit of this tolerance: a record that decodes but names no known action, or
  names a mutating action and has no feature, makes the replay panic at that record.
\<close>

theorem replay_panics_on_invalid_record:
  assumes "(Action d \<noteq> ''insert'' \<and> Action d \<noteq> ''replace'' \<and> Action d \<noteq> ''delete'' \<and>
            Action d \<noteq> ''select'' \<and> Action d \<noteq> ''checkpoint'') \<or>
           ((Action d = ''insert'' \<or> Action d = ''replace'' \<or> Action d = ''delete'') \<and>
            Feature d = None)"
  shows "decodeLoop (Record d # cs) s =
           Inl (if Feature d = None \<and>
                   (Action d = ''insert'' \<or> Action d = ''replace'' \<or> Action d = ''delete'')
                then NilPointerDereference else UnknownAction)"
  using assms
  by (auto simp: Decode_def new_def apply_defs split: option.splits)

theorem replay_panics_on_invalid_record_witness:
  "decodeLoop
     (Record \<lparr>Action = ''replace'', Name = ''storage'', LSN = 0, Feature = None\<rparr> # [])
     (world3, engine0) = Inl NilPointerDereference \<and>
   decodeLoop
     (Record \<lparr>Action = [], Name = [], LSN = 0, Feature = None\<rparr> # [])
     (world3, engine0) = Inl UnknownAction"
  using replay_panics_on_invalid_record
          [of "\<lparr>Action = ''replace'', Name = ''storage'', LSN = 0, Feature = None\<rparr>"
              "[]" "(world3, engine0)"]
        replay_panics_on_invalid_record
          [of "\<lparr>Action = [], Name = [], LSN = 0, Feature = None\<rparr>" "[]" "(world3, engine0)"]
  by simp

subsection \<open>Select\<close>

text \<open>
  C7. A select transaction returns the serialised collection of the features the scan
  of the spatial index enumerates, and the state it returns is the state it was given:
  the indices, the sequence number and the files, the log among them, are unchanged. The
  run loop processes it with \<open>applyTransaction\<close> alone, so it is not appended to the
  log.
\<close>

theorem select_returns_scan_and_changes_nothing:
  assumes "Action txn = ''select''"
  shows "applyTransaction s txn =
           Inr (s, (Some (FeatureCollectionJSON
                            (map (heap (fst s)) (rtree_Scan (spatial (snd s))))), None)) \<and>
         Run_job s txn = Inr s"
  using assms by (simp add: Run_job_def apply_defs)

theorem select_returns_scan_and_changes_nothing_witness:
  "Action (job ''select'' None) = ''select'' \<and>
   applyTransaction (world3, engine0\<lparr>spatial := [((0, 0), (0, 0), 0)]\<rparr>) (job ''select'' None) =
     Inr ((world3, engine0\<lparr>spatial := [((0, 0), (0, 0), 0)]\<rparr>),
          (Some (FeatureCollectionJSON [pointFeature ''p2'' 3 4]), None)) \<and>
   Run_job (world3, engine0\<lparr>spatial := [((0, 0), (0, 0), 0)]\<rparr>) (job ''select'' None) =
     Inr (world3, engine0\<lparr>spatial := [((0, 0), (0, 0), 0)]\<rparr>)"
proof -
  have h: "Action (job ''select'' None) = ''select''"
    by (simp add: job_def)
  from select_returns_scan_and_changes_nothing
         [OF h, of "(world3, engine0\<lparr>spatial := [((0, 0), (0, 0), 0)]\<rparr>)"] h
  show ?thesis by (simp add: rtree_Scan_def world3_def)
qed

subsection \<open>The HTTP handlers\<close>

text \<open>
  C8. The transaction the checkpoint handler submits has the action \<open>replace\<close> and no
  feature; its action is not \<open>checkpoint\<close>. In every engine state it takes the
  insert/replace branch, which panics on the nil feature, so the checkpoint branch (which
  never panics) is not reached.
\<close>

theorem checkpointHandler_submits_replace:
  "Action (checkpointHandler st s) = ''replace'' \<and>
   Feature (checkpointHandler st s) = None \<and>
   Action (checkpointHandler st s) \<noteq> ''checkpoint'' \<and>
   applyTransaction s' (checkpointHandler st s) = Inl NilPointerDereference \<and>
   Run_job s' (checkpointHandler st s) = Inl NilPointerDereference"
  by (simp add: checkpointHandler_def Run_job_def apply_defs)

theorem checkpointHandler_submits_replace_witness:
  "checkpointHandler storage0 (world3, engine0) = job ''replace'' None \<and>
   Run_job (world3, engine0) (checkpointHandler storage0 (world3, engine0)) =
     Inl NilPointerDereference"
  using checkpointHandler_submits_replace [of storage0 "(world3, engine0)" "(world3, engine0)"]
  by (simp add: checkpointHandler_def storage0_def job_def engine0_def)

lemma primaryIDs_lookup:
  assumes "map_of (primary (snd s)) k = Some p"
  shows "AnyString k \<in> primaryIDs s"
proof -
  from assms have "(k, p) \<in> set (primary (snd s))"
    by (rule map_of_SomeD)
  then show ?thesis
    by (force simp: primaryIDs_def)
qed

text \<open>
  C9. For a delete request with identifier \<open>k\<close> the handler allocates a feature with
  only the identifier set and submits it under the action \<open>replace\<close>. Processing that
  transaction stores the stub under \<open>k\<close> in the primary index and adds an entry for it
  to the spatial index; \<open>k\<close> is present afterwards, whatever the state was.
\<close>

theorem deleteHandler_submits_replace:
  "\<exists>w1 p txn s'.
     deleteHandler st s (Some k) = (w1, Some txn) \<and>
     Action txn = ''replace'' \<and> Action txn \<noteq> ''delete'' \<and> Feature txn = Some p \<and>
     heap w1 p = \<lparr>ID = AnyString k, Type = [], BBox = [], Geometry = [], Properties = []\<rparr> \<and>
     Run_job (w1, snd s) txn = Inr s' \<and>
     map_of (primary (snd s')) k = Some p \<and>
     ((0, 0), (0, 0), p) \<in> set (spatial (snd s')) \<and>
     AnyString k \<in> primaryIDs s' \<and> AnyString k \<in> set (scanIDs s')"
proof -
  define p where "p = brk (fst s)"
  define stub where
    "stub = \<lparr>ID = AnyString k, Type = [], BBox = [], Geometry = [], Properties = []\<rparr>"
  define w1 where "w1 = (fst s)\<lparr>heap := (heap (fst s))(p := stub), brk := Suc p\<rparr>"
  define txn where
    "txn = \<lparr>Action = ''replace'', Name = name st, LSN = lsn (snd s), Feature = Some p\<rparr>"
  define s' where
    "s' = (w1, (snd s)\<lparr>primary := AList.update k p (primary (snd s)),
                       spatial := spatial (snd s) @ [((0, 0), (0, 0), p)]\<rparr>)"
  have 1: "deleteHandler st s (Some k) = (w1, Some txn)"
    by (simp add: deleteHandler_def new_def w1_def txn_def p_def stub_def)
  have 2: "Action txn = ''replace''" "Action txn \<noteq> ''delete''" "Feature txn = Some p"
    by (simp_all add: txn_def)
  have 3: "heap w1 p = stub"
    by (simp add: w1_def)
  have 4: "Run_job (w1, snd s) txn = Inr s'"
    by (simp add: Run_job_def apply_defs txn_def w1_def stub_def s'_def Bound_def Valid_def
        rtree_Insert_def)
  have 5: "map_of (primary (snd s')) k = Some p"
    by (simp add: s'_def update_conv')
  have 6: "((0, 0), (0, 0), p) \<in> set (spatial (snd s'))"
    by (simp add: s'_def)
  have 7: "AnyString k \<in> primaryIDs s'"
    using 5 by (rule primaryIDs_lookup)
  have 8: "AnyString k \<in> set (scanIDs s')"
    by (simp add: scanIDs_def rtree_Scan_def s'_def w1_def stub_def)
  from 1 2 3 4 5 6 7 8 show ?thesis
    unfolding stub_def by blast
qed

theorem deleteHandler_submits_replace_witness:
  "\<exists>s'. deleteHandler storage0 (world3, engine0) (Some ''p2'') =
          (world3\<lparr>heap := (heap world3)(3 := stubFeature ''p2''), brk := 4\<rparr>,
           Some (job ''replace'' (Some 3))) \<and>
        Run_job (world3\<lparr>heap := (heap world3)(3 := stubFeature ''p2''), brk := 4\<rparr>, engine0)
          (job ''replace'' (Some 3)) = Inr s' \<and>
        map_of (primary (snd s')) ''p2'' = Some 3"
proof -
  have h: "deleteHandler storage0 (world3, engine0) (Some ''p2'') =
          (world3\<lparr>heap := (heap world3)(3 := stubFeature ''p2''), brk := 4\<rparr>,
           Some (job ''replace'' (Some 3)))"
    by (simp add: deleteHandler_def new_def storage0_def job_def stubFeature_def world3_def
        engine0_def)
  from deleteHandler_submits_replace [of storage0 "(world3, engine0)" "''p2''"] h
  show ?thesis by (auto simp: job_def)
qed

subsection \<open>The run loop\<close>

lemma Run_job_frame:
  assumes "Run_job s tnx = Inr s'"
  shows "fst s' = fst s \<and> lsn (snd s') = lsn (snd s) \<and> logFile (snd s') = logFile (snd s)"
  using assms
  by (auto simp: Run_job_def apply_defs split: if_splits sum.splits option.splits)

text \<open>
  C10. The run loop applies every job with \<open>applyTransaction\<close> and calls neither
  \<open>saveTransaction\<close> nor \<open>check\<close>. Whatever jobs it processes, the files, and so the
  contents of the record log, and the sequence number are what they were before.
\<close>

theorem Run_leaves_log_and_lsn:
  assumes "Run s jobs = Inr s'"
  shows "files (fst s') = files (fst s) \<and>
         contents (fst s') (logFile (snd s')) = contents (fst s) (logFile (snd s)) \<and>
         lsn (snd s') = lsn (snd s)"
proof -
  from assms
  have "fst s' = fst s \<and> lsn (snd s') = lsn (snd s) \<and> logFile (snd s') = logFile (snd s)"
  proof (induction jobs arbitrary: s)
    case Nil
    then show ?case by simp
  next
    case (Cons tnx jobs)
    then obtain s1 where 1: "Run_job s tnx = Inr s1" and 2: "Run s1 jobs = Inr s'"
      by (auto split: sum.splits)
    from Run_job_frame [OF 1] Cons.IH [OF 2] show ?case by simp
  qed
  then show ?thesis by simp
qed

theorem Run_leaves_log_and_lsn_witness:
  "Run (crashedWorld, engine0\<lparr>lsn := 7\<rparr>)
     [job ''insert'' (Some 0), job ''select'' None, job ''delete'' (Some 2)] =
     Inr (crashedWorld, engine0\<lparr>lsn := 7\<rparr>) \<and>
   files (fst (crashedWorld, engine0\<lparr>lsn := 7\<rparr>)) = files crashedWorld \<and>
   lsn (snd (crashedWorld, engine0\<lparr>lsn := 7\<rparr>)) = 7"
proof -
  have h: "Run (crashedWorld, engine0\<lparr>lsn := 7\<rparr>)
     [job ''insert'' (Some 0), job ''select'' None, job ''delete'' (Some 2)] =
     Inr (crashedWorld, engine0\<lparr>lsn := 7\<rparr>)"
    by (simp add: Run_job_def apply_defs fixture_defs crashedWorld_def Bound_def Valid_def
        rtree_Insert_def contains_def)
  from Run_leaves_log_and_lsn [OF h] h
  show ?thesis by simp
qed

subsection \<open>What the run loop does keep\<close>

lemma rtree_Delete_keeps:
  assumes "d' \<in> set (rtree_Scan tr)" and "d' \<noteq> d"
  shows "d' \<in> set (rtree_Scan (rtree_Delete mn mx d tr))"
  using assms
  by (induction mn mx d tr rule: rtree_Delete.induct) (force simp: rtree_Scan_def)+

lemma set_update_subset: "set (AList.update k v al) \<subseteq> insert (k, v) (set al)"
  by (induction al) auto

lemma set_delete_eq: "set (AList.delete k al) = {x \<in> set al. fst x \<noteq> k}"
  by (auto simp: AList.delete_eq)

lemma indexed_Run_job:
  assumes "indexed s" and "Run_job s tnx = Inr s'"
  shows "indexed s'"
proof -
  obtain w e where s: "s = (w, e)"
    by (cases s)
  from assms(1) have inv: "\<And>k p. (k, p) \<in> set (primary e) \<Longrightarrow>
      ID (heap w p) = AnyString k \<and> p \<in> set (rtree_Scan (spatial e))"
    by (auto simp: indexed_def s list_all_iff)
  consider (ins) "Action tnx = ''insert'' \<or> Action tnx = ''replace''"
    | (del) "Action tnx = ''delete''"
    | (other) "Action tnx \<noteq> ''insert''" "Action tnx \<noteq> ''replace''"
        "Action tnx \<noteq> ''delete''"
    by blast
  then show ?thesis
  proof cases
    case ins
    with assms(2) obtain p k where k: "ID (heap w p) = AnyString k"
      and s': "s' = (w, e\<lparr>primary := AList.update k p (primary e),
                          spatial := rtree_Insert (fst (Bound (BBox (heap w p))))
                                       (snd (Bound (BBox (heap w p)))) p (spatial e)\<rparr>)"
      by (auto simp: Run_job_def apply_defs s split: option.splits any.splits if_splits)
    show ?thesis
      using set_update_subset [of k p "primary e"] inv k
      by (auto simp: indexed_def s' list_all_iff rtree_Insert_def rtree_Scan_def)
  next
    case del
    show ?thesis
    proof (cases "\<exists>p k f. Feature tnx = Some p \<and> ID (heap w p) = AnyString k \<and>
                    map_of (primary e) k = Some f")
      case True
      then obtain p k f where p: "Feature tnx = Some p" and k: "ID (heap w p) = AnyString k"
        and f: "map_of (primary e) k = Some f"
        by blast
      define tr' where
        "tr' = rtree_Delete (fst (Bound (BBox (heap w f)))) (snd (Bound (BBox (heap w f)))) f
                 (spatial e)"
      from assms(2) del p k f
      have s': "s' = (w, e\<lparr>spatial := tr', primary := AList.delete k (primary e)\<rparr>)"
        by (auto simp: Run_job_def apply_defs s tr'_def)
      from f have kf: "ID (heap w f) = AnyString k"
        using inv map_of_SomeD by fastforce
      have "ID (heap w p') = AnyString k' \<and> p' \<in> set (rtree_Scan tr')"
        if a: "(k', p') \<in> set (AList.delete k (primary e))" for k' p'
      proof -
        from a have m: "(k', p') \<in> set (primary e)" and ne: "k' \<noteq> k"
          by (auto simp: set_delete_eq)
        from inv [OF m] have 1: "ID (heap w p') = AnyString k'"
          and 2: "p' \<in> set (rtree_Scan (spatial e))"
          by simp_all
        from 1 kf ne have "p' \<noteq> f"
          by auto
        with 2 1 show ?thesis
          by (simp add: rtree_Delete_keeps tr'_def)
      qed
      then show ?thesis
        by (auto simp: indexed_def s' list_all_iff)
    next
      case False
      with assms(2) del have "s' = s"
        by (auto simp: Run_job_def apply_defs s split: option.splits any.splits)
      with assms(1) show ?thesis
        by simp
    qed
  next
    case other
    with assms(2) have "s' = s"
      by (auto simp: Run_job_def apply_defs s split: option.splits if_splits)
    with assms(1) show ?thesis
      by simp
  qed
qed

lemma indexed_Run:
  assumes "indexed s" and "Run s jobs = Inr s'"
  shows "indexed s'"
  using assms
proof (induction jobs arbitrary: s)
  case Nil
  then show ?case by simp
next
  case (Cons tnx jobs)
  then obtain s1 where 1: "Run_job s tnx = Inr s1" and 2: "Run s1 jobs = Inr s'"
    by (auto split: sum.splits)
  from indexed_Run_job [OF Cons.prems(1) 1] have "indexed s1" .
  from Cons.IH [OF this 2] show ?case .
qed

lemma indexed_subset:
  assumes "indexed s"
  shows "primaryIDs s \<subseteq> set (scanIDs s)"
  using assms
  by (force simp: indexed_def primaryIDs_def scanIDs_def list_all_iff)

text \<open>
  One half of the lockstep of the two indices holds: starting from an empty primary
  index, after any jobs the run loop has processed, every identifier of the primary
  index is among those the scan enumerates.
\<close>

theorem primary_ids_are_scanned:
  assumes "primary (snd s) = []" and "Run s jobs = Inr s'"
  shows "primaryIDs s' \<subseteq> set (scanIDs s')"
proof -
  from assms(1) have "indexed s"
    by (simp add: indexed_def)
  from indexed_Run [OF this assms(2)] show ?thesis
    by (rule indexed_subset)
qed

theorem primary_ids_are_scanned_witness:
  "primary (snd (world3, engine0)) = [] \<and>
   Run (world3, engine0) [job ''insert'' (Some 0), job ''replace'' (Some 1)] =
     Inr (world3, engine0\<lparr>primary := [(''p2'', 1)],
                          spatial := [((0, 0), (0, 0), 0), ((0, 0), (0, 0), 1)]\<rparr>) \<and>
   primaryIDs (world3, engine0\<lparr>primary := [(''p2'', 1)],
                          spatial := [((0, 0), (0, 0), 0), ((0, 0), (0, 0), 1)]\<rparr>)
     \<subseteq> set (scanIDs (world3, engine0\<lparr>primary := [(''p2'', 1)],
                          spatial := [((0, 0), (0, 0), 0), ((0, 0), (0, 0), 1)]\<rparr>))"
proof -
  have h1: "primary (snd (world3, engine0)) = []"
    by (simp add: engine0_def)
  have h2: "Run (world3, engine0) [job ''insert'' (Some 0), job ''replace'' (Some 1)] =
     Inr (world3, engine0\<lparr>primary := [(''p2'', 1)],
                          spatial := [((0, 0), (0, 0), 0), ((0, 0), (0, 0), 1)]\<rparr>)"
    by (simp add: Run_job_def apply_defs fixture_defs Bound_def Valid_def rtree_Insert_def)
  from primary_ids_are_scanned [OF h1 h2] h1 h2
  show ?thesis by blast
qed

subsection \<open>The sequence number after a restart\<close>

lemma applyTransaction_lsn:
  assumes "applyTransaction s txn = Inr (s', r)"
  shows "lsn (snd s') = lsn (snd s)"
  using assms
  by (auto simp: apply_defs split: if_splits sum.splits option.splits)

lemma decodeLoop_lsn:
  assumes "decodeLoop cs s = Inr s'"
  shows "lsn (snd s') = lsn (snd s)"
  using assms
proof (induction cs s rule: decodeLoop.induct)
  case (1 s)
  then show ?case by simp
next
  case (2 cs s)
  then show ?case by simp
next
  case (3 d cs s)
  obtain txn w1 where dec: "Decode d (fst s) = (txn, w1)"
    by (cases "Decode d (fst s)")
  with "3.prems" obtain s1 r where a: "applyTransaction (w1, snd s) txn = Inr (s1, r)"
    and b: "decodeLoop cs s1 = Inr s'"
    by (auto split: sum.splits)
  from "3.IH" [OF dec [symmetric] refl a refl b] applyTransaction_lsn [OF a]
  show ?case by simp
qed

text \<open>
  A new engine starts with the sequence number 0 whatever the checkpoint and the log
  hold: loading and replaying apply the records without counting them.
\<close>

theorem NewEngine_lsn_zero:
  assumes "NewEngine logPath ckptPath w = Inr (w', Inr e)"
  shows "lsn e = 0"
  using assms
  by (auto simp: NewEngine_def loadCheckpoint_def replayLog_def Let_def
      split: sum.splits option.splits if_splits prod.splits dest!: decodeLoop_lsn)

theorem NewEngine_lsn_zero_witness:
  "\<exists>w' e. NewEngine ''engine.log'' ''engine.checkpoint'' crashedWorld = Inr (w', Inr e) \<and>
        primary e = [] \<and> brk w' = 5 \<and> lsn e = 0"
proof -
  have "\<exists>w' e. NewEngine ''engine.log'' ''engine.checkpoint'' crashedWorld = Inr (w', Inr e) \<and>
             primary e = [] \<and> brk w' = 5"
    by (simp add: NewEngine_def loadCheckpoint_def replayLog_def contents_def Decode_def
        new_def apply_defs fixture_defs crashedWorld_def Bound_def Valid_def
        rtree_Insert_def contains_def)
  then obtain w' e where
    h: "NewEngine ''engine.log'' ''engine.checkpoint'' crashedWorld = Inr (w', Inr e)"
    and r: "primary e = []" "brk w' = 5"
    by blast
  from NewEngine_lsn_zero [OF h] h r show ?thesis
    by blast
qed

subsection \<open>The codec\<close>

lemma lossy_idem: "lossy (lossy x) = lossy x"
proof (cases "83886079 < \<bar>x\<bar>")
  case True
  then show ?thesis by (simp add: lossy_def)
next
  case False
  define n where "n = \<lfloor>\<bar>x\<bar> * 1000000 + 1 / 2\<rfloor>"
  have lx: "lossy x = sgn x * (of_int n / 1000000)"
    using False by (simp add: lossy_def n_def)
  have n0: "0 \<le> n"
    unfolding n_def by simp
  have "\<bar>x\<bar> * 1000000 + 1 / 2 < 83886079 * 1000000 + 1"
    using False by simp
  then have "n < 83886079 * 1000000 + 1"
    unfolding n_def by (simp add: floor_less_iff)
  then have nT: "n \<le> 83886079 * 1000000"
    by simp
  show ?thesis
  proof (cases "x = 0 \<or> n = 0")
    case True
    then show ?thesis
      using lx by (auto simp: lossy_def)
  next
    case False
    then have x: "x \<noteq> 0" and n: "0 < n"
      using n0 by auto
    have ab: "\<bar>lossy x\<bar> = of_int n / 1000000"
      using x n0 by (simp add: lx abs_mult abs_sgn_eq)
    have le: "\<not> 83886079 < \<bar>lossy x\<bar>"
    proof -
      have "(of_int n :: real) \<le> 83886079 * 1000000"
        using nT by linarith
      then show ?thesis
        unfolding ab by simp
    qed
    have fl: "\<lfloor>\<bar>lossy x\<bar> * 1000000 + 1 / 2\<rfloor> = n"
      unfolding ab by (simp add: floor_unique)
    have sg: "sgn (lossy x) = sgn x"
      using x n by (simp add: lx sgn_mult)
    have "lossy (lossy x) =
            sgn (lossy x) * (of_int \<lfloor>\<bar>lossy x\<bar> * 1000000 + 1 / 2\<rfloor> / 1000000)"
      by (subst lossy_def [of "lossy x"]) (use le in simp)
    also have "\<dots> = sgn x * (of_int n / 1000000)"
      by (simp only: fl sg)
    also have "\<dots> = lossy x"
      by (simp only: lx)
    finally show ?thesis .
  qed
qed

text \<open>
  Writing a feature that was read back changes nothing more: what a checkpoint
  restores is restored unchanged by every later checkpoint.
\<close>

theorem encodeFeature_idempotent: "encodeFeature (encodeFeature f) = encodeFeature f"
  by (cases "ID f") (simp_all add: encodeFeature_def lossy_idem split_beta)

end
